theory Spec2Isabelle
  imports Main
begin

section \<open>JavaScript values\<close>

text \<open>
  The backend handles request bodies and generated questions as untyped JSON values.
  Numbers are kept as far as the handlers look at them: an integral number, any other
  number that is not NaN (a fraction or an infinity: truthy, never an array index), and NaN.
  Strings are sequences of code units below 256.  An object is the list of its own
  properties, the binding in force first.
\<close>

datatype jsval =
    JUndefined
  | JNull
  | JBool bool
  | JInt int
  | JFrac
  | JNaN
  | JStr string
  | JArr "jsval list"
  | JObj "(string \<times> jsval) list"

text \<open>ToBoolean, as used by \<open>!x\<close>, \<open>x || y\<close> and \<open>if (x)\<close>.\<close>

fun truthy :: "jsval \<Rightarrow> bool" where
  "truthy JUndefined = False"
| "truthy JNull = False"
| "truthy (JBool b) = b"
| "truthy (JInt n) = (n \<noteq> 0)"
| "truthy JFrac = True"
| "truthy JNaN = False"
| "truthy (JStr s) = (s \<noteq> [])"
| "truthy (JArr xs) = True"
| "truthy (JObj kvs) = True"

definition js_or :: "jsval \<Rightarrow> jsval \<Rightarrow> jsval" where
  "js_or a b = (if truthy a then a else b)"

text \<open>\<open>Array.isArray\<close>.\<close>

fun isArray :: "jsval \<Rightarrow> bool" where
  "isArray (JArr xs) = True"
| "isArray v = False"

text \<open>\<open>xs[i]\<close> on an array: the element, or \<open>undefined\<close> outside it.\<close>

definition arr_get :: "jsval list \<Rightarrow> int \<Rightarrow> jsval" where
  "arr_get xs i = (if 0 \<le> i \<and> nat i < length xs then xs ! nat i else JUndefined)"

text \<open>
  \<open>q.name\<close> for a name that no prototype defines (\<open>answer\<close>, \<open>options\<close>): a TypeError
  (\<open>None\<close>) on \<open>undefined\<close> and \<open>null\<close>, the own property of an object, \<open>undefined\<close>
  on everything else.
\<close>

fun field :: "jsval \<Rightarrow> string \<Rightarrow> jsval option" where
  "field JUndefined k = None"
| "field JNull k = None"
| "field (JObj kvs) k = Some (case map_of kvs k of None \<Rightarrow> JUndefined | Some v \<Rightarrow> v)"
| "field v k = Some JUndefined"

subsection \<open>Characters and strings\<close>

text \<open>White space as \<open>trim\<close> and the regular expression class \<open>\s\<close> see it.\<close>

definition is_space :: "char \<Rightarrow> bool" where
  "is_space c = ((of_char c :: nat) \<in> {9, 10, 11, 12, 13, 32, 160})"

text \<open>The characters that \<open>.\<close> of a regular expression does not match.\<close>

definition is_line_terminator :: "char \<Rightarrow> bool" where
  "is_line_terminator c = ((of_char c :: nat) \<in> {10, 13})"

definition is_digit :: "char \<Rightarrow> bool" where
  "is_digit c = (48 \<le> (of_char c :: nat) \<and> (of_char c :: nat) \<le> 57)"

definition trim :: "string \<Rightarrow> string" where
  "trim s = rev (dropWhile is_space (rev (dropWhile is_space s)))"

text \<open>
  \<open>toLowerCase\<close> on code units below 256: the letters A to Z and the accented capitals
  from 192 to 222 (without the multiplication sign, 215) move up by 32.
\<close>

definition lower_char :: "char \<Rightarrow> char" where
  "lower_char c =
     (let n = (of_char c :: nat)
      in if (65 \<le> n \<and> n \<le> 90) \<or> (192 \<le> n \<and> n \<le> 222 \<and> n \<noteq> 215)
         then char_of (n + 32) else c)"

definition toLowerCase :: "string \<Rightarrow> string" where
  "toLowerCase s = map lower_char s"

text \<open>
  The upper case of a character, used on the letter of an answer and to compare a
  character with an ASCII character of a pattern under the flag \<open>i\<close>.  The three code
  units below 256 whose upper case lies outside that range or is two letters (181, 223,
  255) stay as they are: none of them is, or matches, an ASCII character.
\<close>

definition upper_char :: "char \<Rightarrow> char" where
  "upper_char c =
     (let n = (of_char c :: nat)
      in if (97 \<le> n \<and> n \<le> 122) \<or> (224 \<le> n \<and> n \<le> 254 \<and> n \<noteq> 247)
         then char_of (n - 32) else c)"

text \<open>\<open>[A-D]\<close> under the flag \<open>i\<close>.\<close>

definition is_letter_AD :: "char \<Rightarrow> bool" where
  "is_letter_AD c = (c \<in> set ''ABCDabcd'')"

text \<open>Decimal digits of a number, as a template literal prints it.\<close>

function show_nat :: "nat \<Rightarrow> string" where
  "show_nat n =
     (if n < 10 then [char_of (48 + n)]
      else show_nat (n div 10) @ [char_of (48 + n mod 10)])"
  by pat_completeness auto
termination
  by (relation "measure id") auto

declare show_nat.simps [simp del]

section \<open>The answer normalizer of \<open>/generate\<close>\<close>

text \<open>
  The body of the callback that computes \<open>normalizedAnswers\<close>, on the answer \<open>ans\<close> and the
  option array \<open>opts\<close> of one question:
  \<^verbatim>\<open>
  if (!ans) return opts[0] || "";
  if (typeof ans === "string" && /^[A-D]$/i.test(ans) && opts.length > 0) {
    const idx = ans.toUpperCase().charCodeAt(0) - 65;
    return opts[idx] || opts[0];
  }
  if (typeof ans === "number" && opts.length > 0) {
    return opts[ans] || opts[0];
  }
  return ans;
  \<close>
\<close>

text \<open>The two guards: \<open>typeof ans === "string" && /^[A-D]$/i.test(ans)\<close> and
  \<open>typeof ans === "number"\<close>.\<close>

fun is_letter_answer :: "jsval \<Rightarrow> bool" where
  "is_letter_answer (JStr [c]) = is_letter_AD c"
| "is_letter_answer v = False"

fun is_number :: "jsval \<Rightarrow> bool" where
  "is_number (JInt n) = True"
| "is_number JFrac = True"
| "is_number JNaN = True"
| "is_number v = False"

text \<open>\<open>ans.toUpperCase().charCodeAt(0) - 65\<close> on a string.\<close>

fun letter_idx :: "jsval \<Rightarrow> int" where
  "letter_idx (JStr (c # cs)) = int (of_char (upper_char c)) - 65"
| "letter_idx v = 0"

text \<open>\<open>opts[ans]\<close> for a number: only an integral number names an element.\<close>

fun number_get :: "jsval list \<Rightarrow> jsval \<Rightarrow> jsval" where
  "number_get opts (JInt n) = arr_get opts n"
| "number_get opts v = JUndefined"

definition normalize_answer :: "jsval \<Rightarrow> jsval list \<Rightarrow> jsval" where
  "normalize_answer ans opts =
     (if \<not> truthy ans then js_or (arr_get opts 0) (JStr [])
      else if is_letter_answer ans \<and> length opts > 0
        then js_or (arr_get opts (letter_idx ans)) (arr_get opts 0)
      else if is_number ans \<and> length opts > 0
        then js_or (number_get opts ans) (arr_get opts 0)
      else ans)"

text \<open>
  The callback itself: \<open>q.answer\<close> throws on a question that is \<open>undefined\<close> or \<open>null\<close>;
  \<open>opts\<close> is \<open>q.options\<close> when that is an array and the empty array otherwise.
\<close>

definition options_of :: "jsval \<Rightarrow> jsval list" where
  "options_of q = (case field q ''options'' of Some (JArr os) \<Rightarrow> os | _ \<Rightarrow> [])"

definition normalizedAnswer :: "jsval \<Rightarrow> jsval option" where
  "normalizedAnswer q =
     (case field q ''answer'' of
        None \<Rightarrow> None
      | Some ans \<Rightarrow> Some (normalize_answer ans (options_of q)))"

text \<open>\<open>questions.map\<close>: the first callback that throws ends the whole map.\<close>

fun map_throwing :: "('a \<Rightarrow> 'b option) \<Rightarrow> 'a list \<Rightarrow> 'b list option" where
  "map_throwing f [] = Some []"
| "map_throwing f (x # xs) =
     (case f x of
        None \<Rightarrow> None
      | Some y \<Rightarrow> (case map_throwing f xs of None \<Rightarrow> None | Some ys \<Rightarrow> Some (y # ys)))"

section \<open>Handler results\<close>

text \<open>
  A handler either answers with \<open>res.status(n).json({ error: msg })\<close> or lets an exception
  escape (only \<open>/evaluate-quiz\<close> has no \<open>try\<close> around its body; the framework then
  answers 500 by itself), or it answers 200 with a body.
\<close>

datatype failure = Status nat string | Uncaught

section \<open>\<open>POST /generate\<close>\<close>

text \<open>
  \<open>generateQuestions\<close> is imported from a module outside this development; the handler
  is modelled for any such function.  Awaiting it either throws or gives a value.
\<close>

datatype gen_outcome = GenThrows | GenReturns jsval

record quiz_entry =
  questions :: jsval
  answers :: "jsval list"

text \<open>\<open>answerStore\<close>: the own properties of the object literal the module starts with.\<close>

type_synonym answer_store = "string \<rightharpoonup> quiz_entry"

text \<open>
  The choice of the prompt text:
  \<^verbatim>\<open>
  if (docText && docText.trim().length > 100) text = docText;
  else if (topic && topic.trim()) text = "Generate questions on topic: " + topic;
  else return res.status(400).json({ error: "docText or topic required" });
  \<close>
  \<open>x.trim()\<close> on a truthy value that is not a string is a TypeError, which the handler's
  \<open>catch\<close> turns into the 500 answer.
\<close>

definition generation_failed :: failure where
  "generation_failed = Status 500 ''Question generation failed''"

definition topic_text :: "jsval \<Rightarrow> failure + string" where
  "topic_text topic =
     (if \<not> truthy topic then Inl (Status 400 ''docText or topic required'')
      else case topic of
        JStr t \<Rightarrow>
          (if trim t \<noteq> [] then Inr (''Generate questions on topic: '' @ t)
           else Inl (Status 400 ''docText or topic required''))
      | _ \<Rightarrow> Inl generation_failed)"

definition prompt_text :: "jsval \<Rightarrow> jsval \<Rightarrow> failure + string" where
  "prompt_text docText topic =
     (if \<not> truthy docText then topic_text topic
      else case docText of
        JStr d \<Rightarrow> (if length (trim d) > 100 then Inr d else topic_text topic)
      | _ \<Rightarrow> Inl generation_failed)"

text \<open>
  The handler, from the store before the call to the store after it and the answer.  A
  successful answer is the pair of the \<open>X-Quiz-Id\<close> header and the JSON body.  \<open>now\<close> is
  the value of \<open>Date.now()\<close>.
\<close>

definition generate ::
  "(string \<Rightarrow> gen_outcome) \<Rightarrow> nat \<Rightarrow> answer_store \<Rightarrow> jsval \<Rightarrow> jsval
     \<Rightarrow> answer_store \<times> (failure + string \<times> jsval)" where
  "generate generateQuestions now answerStore docText topic =
     (case prompt_text docText topic of
        Inl f \<Rightarrow> (answerStore, Inl f)
      | Inr text \<Rightarrow>
         (case generateQuestions text of
            GenThrows \<Rightarrow> (answerStore, Inl generation_failed)
          | GenReturns (JArr qs) \<Rightarrow>
             (case map_throwing normalizedAnswer qs of
                None \<Rightarrow> (answerStore, Inl generation_failed)
              | Some normalizedAnswers \<Rightarrow>
                 (let quizId = ''quiz_'' @ show_nat now
                  in (answerStore(quizId \<mapsto>
                        \<lparr>questions = JArr qs, answers = normalizedAnswers\<rparr>),
                      Inr (quizId, JArr qs))))
          | GenReturns _ \<Rightarrow> (answerStore, Inl generation_failed)))"

section \<open>\<open>POST /evaluate-quiz\<close>\<close>

text \<open>
  \<open>answerStore[quizId]\<close> reads a plain object: an own property if there is one, otherwise
  whatever \<open>Object.prototype\<close> has under that name.  Those inherited values are functions
  (and, for \<open>__proto__\<close>, the prototype itself): truthy, and without a property
  \<open>answers\<close>.  \<open>quizId\<close> is the property key the submitted value converts to.
\<close>

definition object_prototype_keys :: "string list" where
  "object_prototype_keys =
     [''constructor'', ''__defineGetter__'', ''__defineSetter__'', ''hasOwnProperty'',
      ''__lookupGetter__'', ''__lookupSetter__'', ''isPrototypeOf'',
      ''propertyIsEnumerable'', ''toString'', ''valueOf'', ''__proto__'',
      ''toLocaleString'']"

datatype stored = Absent | Inherited | Entry quiz_entry

definition lookup_store :: "answer_store \<Rightarrow> string \<Rightarrow> stored" where
  "lookup_store answerStore quizId =
     (case answerStore quizId of
        Some e \<Rightarrow> Entry e
      | None \<Rightarrow> if quizId \<in> set object_prototype_keys then Inherited else Absent)"

text \<open>
  \<open>answers[i]\<close> on the submitted value: a TypeError on \<open>undefined\<close> and \<open>null\<close>, the
  element of an array, the one-character string of a string, the own property of an
  object, and \<open>undefined\<close> for everything else and outside the range.
\<close>

fun index_at :: "jsval \<Rightarrow> nat \<Rightarrow> jsval option" where
  "index_at JUndefined i = None"
| "index_at JNull i = None"
| "index_at (JArr xs) i = Some (arr_get xs (int i))"
| "index_at (JStr s) i = Some (if i < length s then JStr [s ! i] else JUndefined)"
| "index_at (JObj kvs) i =
     Some (case map_of kvs (show_nat i) of None \<Rightarrow> JUndefined | Some v \<Rightarrow> v)"
| "index_at v i = Some JUndefined"

text \<open>
  \<open>(x || "").toLowerCase()\<close>: the empty string for a falsy \<open>x\<close>, the lower-cased string
  for a string, and a TypeError for any other truthy value, which has no such method.
\<close>

definition lowered :: "jsval \<Rightarrow> string option" where
  "lowered x =
     (if \<not> truthy x then Some []
      else case x of JStr s \<Rightarrow> Some (toLowerCase s) | _ \<Rightarrow> None)"

text \<open>
  \<^verbatim>\<open>
  let correct = 0;
  stored.answers.forEach((ans, i) => {
    if ((ans || "").toLowerCase() === (answers[i] || "").toLowerCase()) correct++;
  });
  \<close>
  The loop runs over the stored key, from index \<open>i\<close> on, with \<open>n\<close> the counter
  \<open>correct\<close> and \<open>submitted\<close> the request's \<open>answers\<close>; \<open>None\<close> is a thrown TypeError.
  The left operand is evaluated before the right one.
\<close>

fun count_quiz :: "jsval list \<Rightarrow> jsval \<Rightarrow> nat \<Rightarrow> nat \<Rightarrow> nat option" where
  "count_quiz [] submitted i n = Some n"
| "count_quiz (ans # rest) submitted i n =
     (case lowered ans of
        None \<Rightarrow> None
      | Some l \<Rightarrow>
         (case index_at submitted i of
            None \<Rightarrow> None
          | Some a \<Rightarrow>
             (case lowered a of
                None \<Rightarrow> None
              | Some r \<Rightarrow>
                  count_quiz rest submitted (Suc i) (if l = r then Suc n else n))))"

text \<open>
  The value of \<open>Math.round((correct / total) * 100)\<close>.  The division and the product are
  in double precision, which is not modelled: \<open>round_pct c tot\<close> stands for the
  result when the total \<open>tot\<close> is positive, and every theorem holds for any such function.
  With a total of 0 the quotient is NaN for \<open>c = 0\<close> and infinite otherwise, and the
  product and \<open>Math.round\<close> keep both.
\<close>

datatype jsnum = Num int | NaN | PosInfinity

definition round_percent :: "(nat \<Rightarrow> nat \<Rightarrow> int) \<Rightarrow> nat \<Rightarrow> nat \<Rightarrow> jsnum" where
  "round_percent round_pct c tot =
     (if tot = 0 then (if c = 0 then NaN else PosInfinity)
      else Num (round_pct c tot))"

record quiz_result =
  success :: bool
  correct :: nat
  wrong :: int
  score :: jsnum

definition evaluate_quiz ::
  "(nat \<Rightarrow> nat \<Rightarrow> int) \<Rightarrow> answer_store \<Rightarrow> string \<Rightarrow> jsval \<Rightarrow> failure + quiz_result" where
  "evaluate_quiz round_pct answerStore quizId submitted =
     (case lookup_store answerStore quizId of
        Absent \<Rightarrow> Inl (Status 404 ''Quiz not found'')
      | Inherited \<Rightarrow> Inl Uncaught
      | Entry stored \<Rightarrow>
         (case count_quiz (answers stored) submitted 0 0 of
            None \<Rightarrow> Inl Uncaught
          | Some c \<Rightarrow>
             (let tot = length (answers stored)
              in Inr \<lparr>success = True, correct = c, wrong = int tot - int c,
                       score = round_percent round_pct c tot\<rparr>)))"

section \<open>\<open>POST /evaluate-level\<close>\<close>

text \<open>
  \<^verbatim>\<open>
  let correct = 0;
  answers.forEach((ans, i) => {
    if ((ans || "").toLowerCase().trim() === (correctAnswers[i] || "").toLowerCase().trim())
      correct++;
  });
  \<close>
  The loop runs over the submitted answers, from index \<open>i\<close> on, with \<open>n\<close> the counter.
\<close>

fun count_level :: "jsval list \<Rightarrow> jsval list \<Rightarrow> nat \<Rightarrow> nat \<Rightarrow> nat option" where
  "count_level [] correctAnswers i n = Some n"
| "count_level (ans # rest) correctAnswers i n =
     (case lowered ans of
        None \<Rightarrow> None
      | Some l \<Rightarrow>
         (case lowered (arr_get correctAnswers (int i)) of
            None \<Rightarrow> None
          | Some r \<Rightarrow>
              count_level rest correctAnswers (Suc i)
                (if trim l = trim r then Suc n else n)))"

datatype level = Beginner | Intermediate | Advanced

text \<open>
  \<^verbatim>\<open>
  let level = "Beginner";
  if (percentage >= 80) level = "Advanced";
  else if (percentage >= 60) level = "Intermediate";
  \<close>
\<close>

definition level_of :: "int \<Rightarrow> level" where
  "level_of percentage =
     (if percentage \<ge> 80 then Advanced
      else if percentage \<ge> 60 then Intermediate
      else Beginner)"

record level_result =
  lr_success :: bool
  lr_correct :: nat
  lr_total :: nat
  percentage :: int
  level :: level

text \<open>
  The handler.  Here the percentage is guarded: \<open>total > 0 ? Math.round(...) : 0\<close>.
\<close>

definition evaluate_level ::
  "(nat \<Rightarrow> nat \<Rightarrow> int) \<Rightarrow> jsval \<Rightarrow> jsval \<Rightarrow> failure + level_result" where
  "evaluate_level round_pct submitted correctAnswers =
     (case (submitted, correctAnswers) of
        (JArr as, JArr cs) \<Rightarrow>
          (if length as \<noteq> length cs
           then Inl (Status 400 ''answers and correctAnswers length mismatch'')
           else case count_level as cs 0 0 of
             None \<Rightarrow> Inl (Status 500 ''Level evaluation failed'')
           | Some c \<Rightarrow>
              (let tot = length as;
                   pct = (if tot > 0 then round_pct c tot else 0)
               in Inr \<lparr>lr_success = True, lr_correct = c, lr_total = tot,
                        percentage = pct, level = level_of pct\<rparr>))
      | _ \<Rightarrow> Inl (Status 400 ''answers and correctAnswers arrays required''))"

section \<open>\<open>POST /generate-level-test\<close>\<close>

text \<open>
  What the handler meets outside itself: the dynamic import of the provider's library
  throws, or gives a module without or with the class \<open>GoogleGenerativeAI\<close>; the call
  \<open>model.generateContent\<close> throws, or gives a result whose first candidate text is absent
  or a string; \<open>JSON.parse\<close> throws (\<open>None\<close>) or gives a value.  Building the model from
  the class (\<open>new GoogleGenerativeAI(key).getGenerativeModel(...)\<close>) is taken to succeed.
\<close>

datatype sdk_import = ImportThrows | ClassMissing | ClassPresent

datatype provider_outcome = CallThrows | CallReturns "string option"

definition mock_question :: "string \<Rightarrow> string \<Rightarrow> string \<Rightarrow> jsval" where
  "mock_question q_text ans difficulty =
     JObj [(''question'', JStr q_text),
           (''options'', JArr [JStr ''Option A'', JStr ''Option B'',
                               JStr ''Option C'', JStr ''Option D'']),
           (''answer'', JStr ans),
           (''difficulty'', JStr difficulty)]"

definition mockQuestions :: "string \<Rightarrow> jsval" where
  "mockQuestions topic =
     JArr [mock_question (''What is the basic definition of '' @ topic @ ''?'')
             ''Option A'' ''Beginner'',
           mock_question (''How would you apply '' @ topic @ '' in a real-world scenario?'')
             ''Option B'' ''Intermediate'',
           mock_question (''What is an advanced technique in '' @ topic @ ''?'')
             ''Option C'' ''Advanced'',
           mock_question (''How does '' @ topic @ '' relate to other concepts?'')
             ''Option A'' ''Intermediate'',
           mock_question (''What are the edge cases in '' @ topic @ ''?'')
             ''Option D'' ''Advanced'']"

definition level_test_failed :: failure where
  "level_test_failed = Status 500 ''Level test generation failed''"

text \<open>
  The handler: the mock questions are returned in one case only, when the imported
  module has no class to build a model from; every exception after that point reaches
  the \<open>catch\<close>, which answers 500.
\<close>

definition generate_level_test ::
  "(string \<Rightarrow> jsval option) \<Rightarrow> sdk_import \<Rightarrow> provider_outcome \<Rightarrow> jsval \<Rightarrow> failure + jsval" where
  "generate_level_test json_parse sdk provider topic =
     (if \<not> truthy topic then Inl (Status 400 ''topic required'')
      else case topic of
        JStr t \<Rightarrow>
          (if trim t = [] then Inl (Status 400 ''topic required'')
           else case sdk of
             ImportThrows \<Rightarrow> Inl level_test_failed
           | ClassMissing \<Rightarrow> Inr (mockQuestions t)
           | ClassPresent \<Rightarrow>
              (case provider of
                 CallThrows \<Rightarrow> Inl level_test_failed
               | CallReturns None \<Rightarrow> Inl level_test_failed
               | CallReturns (Some rawText) \<Rightarrow>
                  (if rawText = [] then Inl level_test_failed
                   else case json_parse rawText of
                     None \<Rightarrow> Inl level_test_failed
                   | Some qs \<Rightarrow> Inr qs)))
      | _ \<Rightarrow> Inl level_test_failed)"

section \<open>The question text parser of the client\<close>

text \<open>
  \<open>parseQuestionsFromText\<close> recovers questions from free text with regular expressions.
  Each expression is written out as the function that the backtracking matcher computes
  for it; where the matcher has several ways to go, the comment says why only one can
  succeed or the function tries them in the matcher's order.
\<close>

record parsed_question =
  pq_question :: string
  pq_options :: "string list"
  pq_answer :: string

definition newline :: char where
  "newline = CHR 0x0A"

text \<open>
  A literal under the flag \<open>i\<close>, at the start of a string: the rest after it.  The
  literals used are ASCII, so two characters match when their upper cases agree.
\<close>

fun ci_prefix :: "string \<Rightarrow> string \<Rightarrow> string option" where
  "ci_prefix [] s = Some s"
| "ci_prefix (p # ps) [] = None"
| "ci_prefix (p # ps) (c # cs) =
     (if upper_char p = upper_char c then ci_prefix ps cs else None)"

text \<open>The same without the flag.\<close>

fun lit_prefix :: "string \<Rightarrow> string \<Rightarrow> string option" where
  "lit_prefix [] s = Some s"
| "lit_prefix (p # ps) [] = None"
| "lit_prefix (p # ps) (c # cs) = (if p = c then lit_prefix ps cs else None)"

text \<open>
  \<open>s.split(re)\<close> for an expression without groups whose matches are never empty.  The
  matcher \<open>m\<close> gives the rest after a match at the start of its argument.  The scan goes
  left to right; \<open>acc\<close> holds the current piece, reversed.  A match is taken only when
  it consumed something.
\<close>

function regex_split :: "(string \<Rightarrow> string option) \<Rightarrow> string \<Rightarrow> string \<Rightarrow> string list" where
  "regex_split m acc [] = [rev acc]"
| "regex_split m acc (c # cs) =
     (case m (c # cs) of
        None \<Rightarrow> regex_split m (c # acc) cs
      | Some r \<Rightarrow>
          if length r \<le> length cs then rev acc # regex_split m [] r
          else regex_split m (c # acc) cs)"
  by pat_completeness auto
termination
  by (relation "measure (\<lambda>(m, acc, s). length s)") auto

text \<open>
  \<open>/\*\*Multiple-Choice Questions\*\*|\*\*Multiple Choice Questions\*\*/i\<close>, the section
  header.
\<close>

definition header_at :: "string \<Rightarrow> string option" where
  "header_at s =
     (case ci_prefix ''**Multiple-Choice Questions**'' s of
        Some r \<Rightarrow> Some r
      | None \<Rightarrow> ci_prefix ''**Multiple Choice Questions**'' s)"

text \<open>
  \<open>/\n(?=\d+\.)/\<close>, the block separator: a line feed, looking ahead at digits and a
  period.  Fewer digits than all of them would leave a digit where the period must be.
\<close>

definition digits_dot :: "string \<Rightarrow> bool" where
  "digits_dot s =
     (takeWhile is_digit s \<noteq> [] \<and>
      (case dropWhile is_digit s of [] \<Rightarrow> False | c # r \<Rightarrow> c = CHR ''.''))"

definition block_sep_at :: "string \<Rightarrow> string option" where
  "block_sep_at s =
     (case s of
        [] \<Rightarrow> None
      | c # r \<Rightarrow> if c = newline \<and> digits_dot r then Some r else None)"

text \<open>The separator of \<open>split("\n")\<close>.\<close>

definition newline_at :: "string \<Rightarrow> string option" where
  "newline_at s = (case s of [] \<Rightarrow> None | c # r \<Rightarrow> if c = newline then Some r else None)"

text \<open>\<open>block.trim().split("\n").filter(l => l.trim())\<close>.\<close>

definition lines_of :: "string \<Rightarrow> string list" where
  "lines_of block = filter (\<lambda>l. trim l \<noteq> []) (regex_split newline_at [] (trim block))"

text \<open>\<open>.replace(/^\d+\.\s*/, "")\<close> on the first line.\<close>

definition strip_number :: "string \<Rightarrow> string" where
  "strip_number l =
     (if digits_dot l then dropWhile is_space (tl (dropWhile is_digit l)) else l)"

text \<open>
  \<open>/http[s]?:\/\/\S+/g\<close>: an \<open>s\<close> after \<open>http\<close> is taken when it is there (left in place,
  it would stand where the colon must be), and \<open>\S+\<close> takes all that is not white space.
  Replacing every match by the empty string is joining the pieces of the split.
\<close>

definition url_at :: "string \<Rightarrow> string option" where
  "url_at s =
     (case lit_prefix ''http'' s of
        None \<Rightarrow> None
      | Some r \<Rightarrow>
         (case lit_prefix ''://''
                 (case r of [] \<Rightarrow> r | c # t \<Rightarrow> if c = CHR ''s'' then t else r) of
            None \<Rightarrow> None
          | Some u \<Rightarrow>
              if takeWhile (\<lambda>c. \<not> is_space c) u \<noteq> []
              then Some (dropWhile (\<lambda>c. \<not> is_space c) u) else None))"

definition remove_urls :: "string \<Rightarrow> string" where
  "remove_urls s = concat (regex_split url_at [] s)"

definition question_text :: "string \<Rightarrow> string" where
  "question_text first_line = trim (remove_urls (trim (strip_number first_line)))"

text \<open>
  \<open>\*?Correct Answer:\*?\<close> under the flag \<open>i\<close>, at the start of a string: the rest
  after it.  Both asterisks are taken when they are there: in each of the three
  expressions below, an asterisk left in place would stand where a letter of the literal,
  white space, a letter A to D or the end must be (and where \<open>.*\<close> follows, it matches
  the asterisk as well).
\<close>

definition opt_star :: "string \<Rightarrow> string" where
  "opt_star s = (case s of [] \<Rightarrow> s | c # r \<Rightarrow> if c = CHR ''*'' then r else s)"

definition marker_head :: "string \<Rightarrow> string option" where
  "marker_head s = map_option opt_star (ci_prefix ''Correct Answer:'' (opt_star s))"

text \<open>
  The option pattern
  \<open>/^([A-D])[.)]\s*(.+?)(?:\s*\*?Correct Answer:\*?.*)?$/i\<close>.

  Its tail \<open>(?:\s*\*?Correct Answer:\*?.*)?$\<close> matches a string when the group matches
  all of it, or when the string is empty.  In the group, \<open>\s*\<close> must take all leading
  white space, since the next character has to be an asterisk or a letter, and \<open>.*\<close>
  reaches the end only when no line terminator follows.
\<close>

definition group_tail :: "string \<Rightarrow> bool" where
  "group_tail t =
     (case marker_head (dropWhile is_space t) of
        None \<Rightarrow> False
      | Some r \<Rightarrow> \<not> list_ex is_line_terminator r)"

definition tail_ok :: "string \<Rightarrow> bool" where
  "tail_ok t = (group_tail t \<or> t = [])"

text \<open>
  The lazy \<open>(.+?)\<close>: \<open>acc\<close> is the body taken so far (reversed, not empty); the shortest
  body after which the tail matches is the capture.  The body cannot run over a line
  terminator.
\<close>

fun body_from :: "string \<Rightarrow> string \<Rightarrow> string option" where
  "body_from acc [] = (if tail_ok [] then Some (rev acc) else None)"
| "body_from acc (c # cs) =
     (if tail_ok (c # cs) then Some (rev acc)
      else if is_line_terminator c then None
      else body_from (c # acc) cs)"

definition match_body :: "string \<Rightarrow> string option" where
  "match_body r =
     (case r of
        [] \<Rightarrow> None
      | c # cs \<Rightarrow> if is_line_terminator c then None else body_from [c] cs)"

text \<open>
  The greedy \<open>\s*\<close> before the body: all leading white space first, then one
  character less at a time.
\<close>

fun first_some :: "('a \<Rightarrow> 'b option) \<Rightarrow> 'a list \<Rightarrow> 'b option" where
  "first_some f [] = None"
| "first_some f (x # xs) = (case f x of Some y \<Rightarrow> Some y | None \<Rightarrow> first_some f xs)"

definition option_body :: "string \<Rightarrow> string option" where
  "option_body rest =
     first_some (\<lambda>w. match_body (drop w rest))
       (rev [0 ..< Suc (length (takeWhile is_space rest))])"

text \<open>\<open>line.match(...)\<close>: the second group of the match, or \<open>None\<close> for no match.\<close>

definition optionMatch :: "string \<Rightarrow> string option" where
  "optionMatch line =
     (case line of
        l # p # rest \<Rightarrow>
          if is_letter_AD l \<and> (p = CHR ''.'' \<or> p = CHR '')'') then option_body rest
          else None
      | _ \<Rightarrow> None)"

text \<open>
  \<open>.replace(/\*?Correct Answer:\*?\s*[A-D]?\s*$/i, "")\<close>: the leftmost place from which
  the expression matches up to the end is cut off with all that follows.  After the
  marker, the white space and the letter are taken when they are there, and only white
  space may remain.
\<close>

definition trailing_marker :: "string \<Rightarrow> bool" where
  "trailing_marker t =
     (case marker_head t of
        None \<Rightarrow> False
      | Some r \<Rightarrow>
         (let r1 = dropWhile is_space r;
              r2 = (case r1 of [] \<Rightarrow> r1 | c # u \<Rightarrow> if is_letter_AD c then u else r1)
          in list_all is_space r2))"

fun strip_trailing_marker :: "string \<Rightarrow> string" where
  "strip_trailing_marker [] = []"
| "strip_trailing_marker (c # cs) =
     (if trailing_marker (c # cs) then [] else c # strip_trailing_marker cs)"

text \<open>
  \<open>line.match(/\*?Correct Answer:\*?\s*([A-D])/i)\<close>: the letter captured by the
  leftmost match.
\<close>

definition marker_letter_at :: "string \<Rightarrow> char option" where
  "marker_letter_at t =
     (case marker_head t of
        None \<Rightarrow> None
      | Some r \<Rightarrow>
         (case dropWhile is_space r of
            [] \<Rightarrow> None
          | c # u \<Rightarrow> if is_letter_AD c then Some c else None))"

fun find_marker :: "string \<Rightarrow> char option" where
  "find_marker [] = None"
| "find_marker (c # cs) =
     (case marker_letter_at (c # cs) of Some l \<Rightarrow> Some l | None \<Rightarrow> find_marker cs)"

text \<open>
  The loop over the lines after the first, with the state \<open>options\<close> and
  \<open>correctAnswer\<close>.  The marker is looked for only on a line that matched the option
  pattern.
  \<^verbatim>\<open>
  const line = lines[i].trim();
  const optionMatch = line.match(...);
  if (optionMatch) {
    let optionText = optionMatch[2].trim();
    optionText = optionText.replace(..., "").trim();
    if (optionText && optionText.length > 0) options.push(optionText);
    if (line.match(...)) correctAnswer = line.match(...)[1];
  }
  \<close>
\<close>

fun scan_lines :: "string list \<Rightarrow> string list \<Rightarrow> char option \<Rightarrow> string list \<times> char option" where
  "scan_lines [] options correctAnswer = (options, correctAnswer)"
| "scan_lines (l # ls) options correctAnswer =
     (case optionMatch (trim l) of
        None \<Rightarrow> scan_lines ls options correctAnswer
      | Some body \<Rightarrow>
         (let optionText = trim (strip_trailing_marker (trim body))
          in scan_lines ls
               (if optionText \<noteq> [] then options @ [optionText] else options)
               (case find_marker (trim l) of
                  Some c \<Rightarrow> Some c
                | None \<Rightarrow> correctAnswer)))"

text \<open>
  One block.  \<open>None\<close> stands for \<open>continue\<close> and for a block that pushes nothing.
  \<^verbatim>\<open>
  if (questionText && options.length >= 3) {
    const finalOptions = options.slice(0, 4);
    let answerIndex = 0;
    if (correctAnswer) {
      answerIndex = correctAnswer.charCodeAt(0) - 65;
      if (answerIndex < 0 || answerIndex >= finalOptions.length) answerIndex = 0;
    }
    questions.push({ question: questionText, options: finalOptions,
                     answer: finalOptions[answerIndex] || finalOptions[0] });
  }
  \<close>
\<close>

definition answer_index :: "char option \<Rightarrow> nat \<Rightarrow> nat" where
  "answer_index correctAnswer n =
     (case correctAnswer of
        None \<Rightarrow> 0
      | Some c \<Rightarrow>
         (let answerIndex = int (of_char c) - 65
          in if answerIndex < 0 \<or> answerIndex \<ge> int n then 0 else nat answerIndex))"

definition parse_block :: "string \<Rightarrow> parsed_question option" where
  "parse_block block =
     (let lines = lines_of block
      in if length lines < 4 then None
         else
          (let questionText = question_text (hd lines);
               (options, correctAnswer) = scan_lines (tl lines) [] None
           in if questionText \<noteq> [] \<and> length options \<ge> 3
              then
               (let finalOptions = take 4 options;
                    chosen = finalOptions ! answer_index correctAnswer (length finalOptions)
                in Some \<lparr>pq_question = questionText, pq_options = finalOptions,
                         pq_answer = (if chosen \<noteq> [] then chosen else hd finalOptions)\<rparr>)
              else None))"

text \<open>
  \<^verbatim>\<open>
  if (!text || typeof text !== "string") return [];
  const sections = text.split(header);
  const mcqSection = sections.length > 1 ? sections[1] : text;
  const questionBlocks = mcqSection.split(/\n(?=\d+\.)/);
  \<close>
\<close>

definition parseQuestionsFromText :: "jsval \<Rightarrow> parsed_question list" where
  "parseQuestionsFromText text =
     (case text of
        JStr t \<Rightarrow>
          (if t = [] then []
           else
            (let sections = regex_split header_at [] t;
                 mcqSection = (if length sections > 1 then sections ! 1 else t);
                 questionBlocks = regex_split block_sep_at [] mcqSection
             in List.map_filter parse_block questionBlocks))
      | _ \<Rightarrow> [])"

section \<open>Text equality up to case and surrounding white space\<close>

text \<open>
  The comparison that the level evaluator applies to two strings:
  \<open>x.toLowerCase().trim() === y.toLowerCase().trim()\<close>.
\<close>

definition same_text :: "string \<Rightarrow> string \<Rightarrow> bool" where
  "same_text x y = (trim (toLowerCase x) = trim (toLowerCase y))"

section \<open>Sample data\<close>

text \<open>
  An instance of the rounding parameter for closed examples: the exact quotient
  \<open>100 * c / tot\<close>, rounded half up.
\<close>

definition exact_percent :: "nat \<Rightarrow> nat \<Rightarrow> int" where
  "exact_percent c tot = (200 * int c + int tot) div (2 * int tot)"

definition sample_store :: answer_store where
  "sample_store =
     Map.empty(''quiz_1'' \<mapsto> \<lparr>questions = JArr [], answers = [JStr ''bar'']\<rparr>)"

text \<open>
  A normalized answer that the normalizer reads as literal text: the empty string, or a
  truthy value that none of the two guards converts.
\<close>

definition literal_answer :: "jsval \<Rightarrow> jsval list \<Rightarrow> bool" where
  "literal_answer r opts =
     (r = JStr [] \<or>
      (truthy r \<and> (opts = [] \<or> (\<not> is_letter_answer r \<and> \<not> is_number r))))"

text \<open>
  A generator that returns the one question
  \<open>{ question: "Q", options: ["foo", "bar"], answer: "bar" }\<close>, and the store at the
  start of the process.
\<close>

definition sample_question :: jsval where
  "sample_question =
     JObj [(''question'', JStr ''Q''),
           (''options'', JArr [JStr ''foo'', JStr ''bar'']),
           (''answer'', JStr ''bar'')]"

definition sample_generator :: "string \<Rightarrow> gen_outcome" where
  "sample_generator text = GenReturns (JArr [sample_question])"

definition empty_generator :: "string \<Rightarrow> gen_outcome" where
  "empty_generator text = GenReturns (JArr [])"

text \<open>
  The text \<open>"1. What is X?\nA) foo\nB) bar\nC) baz\n*Correct Answer:* B"\<close>, and the same
  with the marker at the end of the last option line.
\<close>

definition scenario_text :: string where
  "scenario_text =
     ''1. What is X?'' @ [newline] @ ''A) foo'' @ [newline] @ ''B) bar'' @ [newline]
       @ ''C) baz'' @ [newline] @ ''*Correct Answer:* B''"

definition inline_marker_text :: string where
  "inline_marker_text =
     ''1. What is X?'' @ [newline] @ ''A) foo'' @ [newline] @ ''B) bar'' @ [newline]
       @ ''C) baz *Correct Answer:* B''"

definition empty_store :: answer_store where
  "empty_store = Map.empty"

section \<open>Properties of the quiz scorer\<close>

lemma arr_get_take: "i < m \<Longrightarrow> arr_get (take m s) (int i) = arr_get s (int i)"
  by (simp add: arr_get_def)

lemma count_quiz_bounds:
  "count_quiz ks sub i n = Some c \<Longrightarrow> n \<le> c \<and> c \<le> n + length ks"
proof (induction ks arbitrary: i n)
  case Nil
  then show ?case by simp
next
  case (Cons k ks)
  then show ?case
    by (fastforce split: option.splits if_splits)
qed

lemma count_quiz_prefix:
  "i + length ks \<le> m \<Longrightarrow>
   count_quiz ks (JArr (take m s)) i n = count_quiz ks (JArr s) i n"
proof (induction ks arbitrary: i n)
  case Nil
  then show ?case by simp
next
  case (Cons k ks)
  then have "i < m" and "Suc i + length ks \<le> m" by simp_all
  then show ?case
    using Cons.IH [of "Suc i"] by (simp add: arr_get_take split: option.splits)
qed

lemma lowered_JStr: "lowered (JStr s) = Some (toLowerCase s)"
  by (cases s) (simp_all add: lowered_def toLowerCase_def)

lemma lowered_arr_get_strings:
  "\<exists>r. lowered (arr_get (map JStr ys) j) = Some r"
  by (simp add: arr_get_def lowered_JStr lowered_def)

lemma count_quiz_strings:
  "\<exists>c. count_quiz (map JStr ks) (JArr (map JStr ys)) i n = Some c"
proof (induction ks arbitrary: i n)
  case Nil
  then show ?case by simp
next
  case (Cons k ks)
  obtain r where r: "lowered (arr_get (map JStr ys) (int i)) = Some r"
    using lowered_arr_get_strings by blast
  show ?case
    using Cons.IH r by (simp add: lowered_JStr)
qed

text \<open>
  On strings of equal number the scorer counts the positions whose lower-cased texts are
  equal.
\<close>

lemma count_quiz_positional:
  "i + length ks \<le> length ys \<Longrightarrow>
   count_quiz (map JStr ks) (JArr (map JStr ys)) i n
     = Some (n + length (filter (\<lambda>(k, y). toLowerCase k = toLowerCase y)
                           (zip ks (drop i ys))))"
proof (induction ks arbitrary: i n)
  case Nil
  then show ?case by simp
next
  case (Cons k ks)
  then have i: "i < length ys" and rest: "Suc i + length ks \<le> length ys" by simp_all
  from i have d: "drop i ys = ys ! i # drop (Suc i) ys"
    by (simp add: Cons_nth_drop_Suc)
  from i have g: "arr_get (map JStr ys) (int i) = JStr (ys ! i)"
    by (simp add: arr_get_def)
  show ?case
    using Cons.IH [OF rest] by (simp add: lowered_JStr g d)
qed

text \<open>
  Claim C10.  For a quiz in the store and two submitted arrays that agree on as many
  leading entries as the stored key has, the scorer answers the same: entries beyond the
  stored question count are ignored.  Whenever it returns a result, the count of correct
  answers is at most the length of the stored key and \<open>wrong\<close> is the non-negative
  difference.  It does return a result when the key and the submission hold strings.
\<close>

theorem evaluate_quiz_prefix_bounded:
  assumes "answerStore quizId = Some stored"
  shows "(take (length (answers stored)) s = take (length (answers stored)) s' \<longrightarrow>
            evaluate_quiz round_pct answerStore quizId (JArr s)
          = evaluate_quiz round_pct answerStore quizId (JArr s'))
       \<and> (\<forall>r. evaluate_quiz round_pct answerStore quizId (JArr s) = Inr r \<longrightarrow>
            correct r \<le> length (answers stored)
          \<and> wrong r = int (length (answers stored)) - int (correct r) \<and> 0 \<le> wrong r)
       \<and> ((\<exists>ks. answers stored = map JStr ks) \<and> (\<exists>ys. s = map JStr ys) \<longrightarrow>
            (\<exists>r. evaluate_quiz round_pct answerStore quizId (JArr s) = Inr r))"
proof -
  let ?n = "length (answers stored)"
  have prefix: "evaluate_quiz round_pct answerStore quizId (JArr s)
          = evaluate_quiz round_pct answerStore quizId (JArr s')"
    if eq: "take ?n s = take ?n s'"
  proof -
    have "count_quiz (answers stored) (JArr s) 0 0
        = count_quiz (answers stored) (JArr (take ?n s)) 0 0"
      by (simp add: count_quiz_prefix)
    also have "\<dots> = count_quiz (answers stored) (JArr s') 0 0"
      by (simp add: eq count_quiz_prefix)
    finally show ?thesis
      using assms by (simp add: evaluate_quiz_def lookup_store_def)
  qed
  have bounded: "correct r \<le> ?n \<and> wrong r = int ?n - int (correct r) \<and> 0 \<le> wrong r"
    if res: "evaluate_quiz round_pct answerStore quizId (JArr s) = Inr r" for r
  proof -
    from res obtain c where c: "count_quiz (answers stored) (JArr s) 0 0 = Some c"
      and r: "r = \<lparr>success = True, correct = c, wrong = int ?n - int c,
                   score = round_percent round_pct c ?n\<rparr>"
      using assms
      by (auto simp: evaluate_quiz_def lookup_store_def Let_def split: option.splits)
    from count_quiz_bounds [OF c] have "c \<le> ?n" by simp
    then show ?thesis by (simp add: r)
  qed
  have returns: "\<exists>r. evaluate_quiz round_pct answerStore quizId (JArr s) = Inr r"
    if "(\<exists>ks. answers stored = map JStr ks) \<and> (\<exists>ys. s = map JStr ys)"
  proof -
    from that obtain ks ys where "answers stored = map JStr ks" "s = map JStr ys" by blast
    then show ?thesis
      using assms count_quiz_strings [of ks ys 0 0]
      by (auto simp: evaluate_quiz_def lookup_store_def Let_def)
  qed
  from prefix bounded returns show ?thesis by blast
qed

theorem evaluate_quiz_prefix_bounded_witness:
  "sample_store ''quiz_1'' = Some \<lparr>questions = JArr [], answers = [JStr ''bar'']\<rparr>
   \<and> evaluate_quiz exact_percent sample_store ''quiz_1'' (JArr [JStr ''Bar'', JStr ''more''])
     = evaluate_quiz exact_percent sample_store ''quiz_1'' (JArr [JStr ''Bar''])
   \<and> (\<exists>r. evaluate_quiz exact_percent sample_store ''quiz_1''
               (JArr [JStr ''Bar'', JStr ''more'']) = Inr r
          \<and> correct r \<le> 1)"
proof -
  let ?e = "\<lparr>questions = JArr [], answers = [JStr ''bar'']\<rparr>"
  let ?s = "[JStr ''Bar'', JStr ''more'']"
  have h: "sample_store ''quiz_1'' = Some ?e"
    by (simp add: sample_store_def)
  have t: "take (length (answers ?e)) ?s = take (length (answers ?e)) [JStr ''Bar'']"
    by simp
  have k: "(\<exists>ks. answers ?e = map JStr ks) \<and> (\<exists>ys. ?s = map JStr ys)"
  proof
    show "\<exists>ks. answers ?e = map JStr ks" by (rule exI [of _ "[''bar'']"]) simp
    show "\<exists>ys. ?s = map JStr ys"
      by (rule exI [of _ "[''Bar'', ''more'']"]) simp
  qed
  note T = evaluate_quiz_prefix_bounded [where answerStore = sample_store
      and quizId = "''quiz_1''" and stored = ?e and s = ?s and s' = "[JStr ''Bar'']"
      and round_pct = exact_percent, OF h]
  from T t have a: "evaluate_quiz exact_percent sample_store ''quiz_1'' (JArr ?s)
     = evaluate_quiz exact_percent sample_store ''quiz_1'' (JArr [JStr ''Bar''])"
    by blast
  from T k obtain r
    where r: "evaluate_quiz exact_percent sample_store ''quiz_1'' (JArr ?s) = Inr r"
    by blast
  from T r have "correct r \<le> length (answers ?e)" by blast
  then have "correct r \<le> 1" by simp
  with h a r show ?thesis by blast
qed

text \<open>
  Claim C2 (the scorer compares up to case and surrounding white space, and a missing
  entry never matches).  The scorer lower-cases both sides and does not trim them: for the
  stored answer \<open>"bar"\<close> the submission \<open>" bar"\<close> counts as wrong, although the two are
  the same text up to white space, and the level evaluator counts the same pair as
  correct.  A missing entry is compared as the empty string, so it matches a stored
  answer that is empty.
\<close>

theorem evaluate_quiz_untrimmed:
  "evaluate_quiz round_pct sample_store ''quiz_1'' (JArr [JStr '' bar''])
     = Inr \<lparr>success = True, correct = 0, wrong = 1, score = Num (round_pct 0 1)\<rparr>
   \<and> same_text '' bar'' ''bar''
   \<and> evaluate_level round_pct (JArr [JStr '' bar'']) (JArr [JStr ''bar''])
     = Inr \<lparr>lr_success = True, lr_correct = 1, lr_total = 1,
             percentage = round_pct 1 1, level = level_of (round_pct 1 1)\<rparr>
   \<and> evaluate_quiz round_pct
        (empty_store(''quiz_2'' \<mapsto> \<lparr>questions = JArr [JObj []], answers = [JStr []]\<rparr>))
        ''quiz_2'' (JArr [])
     = Inr \<lparr>success = True, correct = 1, wrong = 0, score = Num (round_pct 1 1)\<rparr>"
  by (simp add: evaluate_quiz_def sample_store_def lookup_store_def lowered_def
      toLowerCase_def lower_char_def arr_get_def round_percent_def trim_def is_space_def
      evaluate_level_def same_text_def Let_def)

section \<open>Properties of quiz generation\<close>

lemma show_nat_42: "show_nat 42 = ''42''"
  by code_simp

lemma prompt_topic_sets:
  "prompt_text JUndefined (JStr ''sets'') = Inr ''Generate questions on topic: sets''"
  by (simp add: prompt_text_def topic_text_def trim_def is_space_def)

lemma sample_question_answer: "field sample_question ''answer'' = Some (JStr ''bar'')"
  by (simp add: sample_question_def)

lemma sample_question_normalized: "normalizedAnswer sample_question = Some (JStr ''bar'')"
  by (simp add: normalizedAnswer_def sample_question_def options_of_def normalize_answer_def)

lemma generate_sample:
  "generate sample_generator 42 empty_store JUndefined (JStr ''sets'')
     = (empty_store(''quiz_42'' \<mapsto>
          \<lparr>questions = JArr [sample_question], answers = [JStr ''bar'']\<rparr>),
        Inr (''quiz_42'', JArr [sample_question]))"
  by (simp add: generate_def prompt_topic_sets sample_generator_def sample_question_normalized
      show_nat_42 Let_def)

lemma generate_empty:
  "generate empty_generator 42 empty_store JUndefined (JStr ''sets'')
     = (empty_store(''quiz_42'' \<mapsto> \<lparr>questions = JArr [], answers = []\<rparr>),
        Inr (''quiz_42'', JArr []))"
  by (simp add: generate_def prompt_topic_sets empty_generator_def show_nat_42 Let_def)

lemma map_throwing_Some:
  "map_throwing f xs = Some ys \<Longrightarrow>
   length ys = length xs \<and> (\<forall>i < length xs. f (xs ! i) = Some (ys ! i))"
proof (induction xs arbitrary: ys)
  case Nil
  then show ?case by simp
next
  case (Cons x xs)
  then obtain y ys' where y: "f x = Some y" and ys': "map_throwing f xs = Some ys'"
    and ys: "ys = y # ys'"
    by (auto split: option.splits)
  from Cons.IH [OF ys'] y ys show ?case
    by (auto simp: nth_Cons split: nat.splits)
qed

lemma normalizedAnswer_Some:
  "normalizedAnswer q = Some a \<Longrightarrow>
   \<exists>ans. field q ''answer'' = Some ans \<and> a = normalize_answer ans (options_of q)"
  by (auto simp: normalizedAnswer_def split: option.splits)

text \<open>
  Claim C1, as stated (no question object of the response embeds the stored answer):
  refuted.  For a generator that returns one question with the literal answer \<open>"bar"\<close>,
  the response body is that question with its \<open>answer\<close> field, and the stored key for it
  is the same \<open>"bar"\<close>.
\<close>

theorem generate_discloses_answer:
  "generate sample_generator 42 empty_store JUndefined (JStr ''sets'')
     = (empty_store(''quiz_42'' \<mapsto>
          \<lparr>questions = JArr [sample_question], answers = [JStr ''bar'']\<rparr>),
        Inr (''quiz_42'', JArr [sample_question]))
   \<and> field sample_question ''answer'' = Some (JStr ''bar'')"
  using generate_sample sample_question_answer by simp

text \<open>
  Claim C1, amended.  Every successful call of \<open>/generate\<close> answers with the array that
  the generator returned, unchanged, so each question object still has its own \<open>answer\<close>
  field; the quiz identifier \<open>quiz_\<close> followed by the time goes into the header; and the
  store gains, under that identifier, the same array and a key that holds for each
  question the normalization of that \<open>answer\<close> field against the question's options.
\<close>

theorem generate_returns_questions_unchanged:
  assumes "generate generateQuestions now answerStore docText topic
             = (store', Inr (quizId, body))"
  shows "\<exists>prompt qs key.
           prompt_text docText topic = Inr prompt
         \<and> generateQuestions prompt = GenReturns body
         \<and> body = JArr qs
         \<and> quizId = ''quiz_'' @ show_nat now
         \<and> store' = answerStore(quizId \<mapsto> \<lparr>questions = body, answers = key\<rparr>)
         \<and> length key = length qs
         \<and> (\<forall>i < length qs. \<exists>ans. field (qs ! i) ''answer'' = Some ans
                \<and> key ! i = normalize_answer ans (options_of (qs ! i)))"
proof -
  from assms obtain prompt where prompt: "prompt_text docText topic = Inr prompt"
    by (auto simp: generate_def split: sum.splits)
  from assms prompt obtain qs where qs: "generateQuestions prompt = GenReturns (JArr qs)"
    by (auto simp: generate_def split: gen_outcome.splits jsval.splits)
  from assms prompt qs obtain key where key: "map_throwing normalizedAnswer qs = Some key"
    by (auto simp: generate_def split: option.splits)
  from assms prompt qs key have res: "body = JArr qs" "quizId = ''quiz_'' @ show_nat now"
    "store' = answerStore(quizId \<mapsto> \<lparr>questions = body, answers = key\<rparr>)"
    by (auto simp: generate_def Let_def)
  from map_throwing_Some [OF key] have len: "length key = length qs"
    and each: "\<forall>i < length qs. normalizedAnswer (qs ! i) = Some (key ! i)"
    by simp_all
  from each have "\<forall>i < length qs. \<exists>ans. field (qs ! i) ''answer'' = Some ans
                \<and> key ! i = normalize_answer ans (options_of (qs ! i))"
    using normalizedAnswer_Some by blast
  with prompt qs res len show ?thesis by blast
qed

theorem generate_returns_questions_unchanged_witness:
  "generate sample_generator 42 empty_store JUndefined (JStr ''sets'')
     = (empty_store(''quiz_42'' \<mapsto>
          \<lparr>questions = JArr [sample_question], answers = [JStr ''bar'']\<rparr>),
        Inr (''quiz_42'', JArr [sample_question]))
   \<and> (\<exists>prompt. sample_generator prompt = GenReturns (JArr [sample_question]))"
  using generate_returns_questions_unchanged [OF generate_sample] generate_sample
  by blast

text \<open>
  Claim C3 (a stored quiz without questions scores a numeric 0).  \<open>/generate\<close> stores a
  quiz for a generator that returns the empty array, and the scorer then computes
  \<open>Math.round((0 / 0) * 100)\<close>: the score is NaN, not 0.  The level evaluator guards the
  same division with \<open>total > 0\<close>; the scorer does not.
\<close>

theorem evaluate_quiz_empty_quiz_score:
  "generate empty_generator 42 empty_store JUndefined (JStr ''sets'')
     = (empty_store(''quiz_42'' \<mapsto> \<lparr>questions = JArr [], answers = []\<rparr>),
        Inr (''quiz_42'', JArr []))
   \<and> evaluate_quiz round_pct
        (empty_store(''quiz_42'' \<mapsto> \<lparr>questions = JArr [], answers = []\<rparr>))
        ''quiz_42'' (JArr [])
     = Inr \<lparr>success = True, correct = 0, wrong = 0, score = NaN\<rparr>"
  using generate_empty
  by (simp add: evaluate_quiz_def lookup_store_def round_percent_def)

text \<open>
  Claim C7 (an identifier that is not in the store is answered with 404).  The store is
  a plain object, so the lookup of \<open>constructor\<close> finds the inherited function, which is
  truthy: the 404 branch is skipped, \<open>stored.answers\<close> is \<open>undefined\<close>, and the call of
  \<open>forEach\<close> on it throws out of the handler.
\<close>

theorem evaluate_quiz_inherited_key:
  "evaluate_quiz round_pct empty_store ''constructor'' (JArr [JStr ''x'']) = Inl Uncaught"
  by (simp add: evaluate_quiz_def lookup_store_def object_prototype_keys_def empty_store_def)

text \<open>For every other identifier that is not in the store, the answer is the 404.\<close>

lemma evaluate_quiz_not_found:
  "answerStore quizId = None \<Longrightarrow> quizId \<notin> set object_prototype_keys \<Longrightarrow>
   evaluate_quiz round_pct answerStore quizId submitted = Inl (Status 404 ''Quiz not found'')"
  by (simp add: evaluate_quiz_def lookup_store_def)

lemma evaluate_quiz_unknown_id:
  "evaluate_quiz round_pct empty_store ''unknown-id'' (JArr [JStr ''x''])
     = Inl (Status 404 ''Quiz not found'')"
  by (simp add: evaluate_quiz_def lookup_store_def object_prototype_keys_def empty_store_def)

section \<open>Properties of the answer normalizer\<close>

lemma normalize_answer_literal:
  "truthy r \<Longrightarrow> opts = [] \<or> (\<not> is_letter_answer r \<and> \<not> is_number r) \<Longrightarrow>
   normalize_answer r opts = r"
  by (auto simp: normalize_answer_def)

lemma normalize_answer_empty:
  assumes "normalize_answer x opts = JStr []"
  shows "normalize_answer (JStr []) opts = JStr []"
proof -
  have "\<not> truthy (arr_get opts 0)"
    using assms by (auto simp: normalize_answer_def js_or_def split: if_splits)
  then show ?thesis by (simp add: normalize_answer_def js_or_def)
qed

text \<open>
  Claim C4, as stated (the normalizer is idempotent for every answer and option list):
  refuted.  With the options \<open>["B", "C"]\<close> the letter \<open>"A"\<close> normalizes to the first
  option \<open>"B"\<close>, and \<open>"B"\<close> is itself a letter: it normalizes to the second option \<open>"C"\<close>.
\<close>

theorem normalize_answer_not_idempotent:
  "normalize_answer (normalize_answer (JStr ''A'') [JStr ''B'', JStr ''C''])
       [JStr ''B'', JStr ''C'']
     \<noteq> normalize_answer (JStr ''A'') [JStr ''B'', JStr ''C'']"
  by (simp add: normalize_answer_def is_letter_AD_def js_or_def arr_get_def upper_char_def)

text \<open>
  Claim C4, amended.  For every answer and option list, when the normalized answer is
  literal text (the empty string, or a truthy value that, if there are options, is
  neither a single letter A to D nor a number), normalizing it again returns it
  unchanged.
\<close>

theorem normalize_answer_idempotent_on_literals:
  "literal_answer (normalize_answer x opts) opts \<Longrightarrow>
   normalize_answer (normalize_answer x opts) opts = normalize_answer x opts"
  unfolding literal_answer_def
  using normalize_answer_empty [of x opts]
    normalize_answer_literal [of "normalize_answer x opts" opts]
  by auto

theorem normalize_answer_idempotent_on_literals_witness:
  "literal_answer (normalize_answer (JStr ''b'') [JStr ''foo'', JStr ''bar''])
     [JStr ''foo'', JStr ''bar'']
   \<and> normalize_answer (JStr ''b'') [JStr ''foo'', JStr ''bar''] = JStr ''bar''
   \<and> normalize_answer (JStr ''bar'') [JStr ''foo'', JStr ''bar''] = JStr ''bar''"
proof -
  have n: "normalize_answer (JStr ''b'') [JStr ''foo'', JStr ''bar''] = JStr ''bar''"
    by (simp add: normalize_answer_def is_letter_AD_def js_or_def arr_get_def upper_char_def)
  have l: "literal_answer (normalize_answer (JStr ''b'') [JStr ''foo'', JStr ''bar''])
             [JStr ''foo'', JStr ''bar'']"
    by (simp add: n literal_answer_def)
  from normalize_answer_idempotent_on_literals [OF l] n l show ?thesis by simp
qed

section \<open>Properties of the question text parser\<close>

lemma parse_scenario_text:
  "parseQuestionsFromText (JStr scenario_text)
     = [\<lparr>pq_question = ''What is X?'', pq_options = [''foo'', ''bar'', ''baz''],
          pq_answer = ''foo''\<rparr>]"
  by code_simp

lemma parse_inline_marker_text:
  "parseQuestionsFromText (JStr inline_marker_text)
     = [\<lparr>pq_question = ''What is X?'', pq_options = [''foo'', ''bar'', ''baz''],
          pq_answer = ''bar''\<rparr>]"
  by code_simp

text \<open>
  Claim C5, as stated (the text with the marker on a line of its own parses to one
  question with the answer \<open>"bar"\<close>): refuted.  The marker line does not match the option
  pattern, so no letter is recorded and the answer is the first option.
\<close>

theorem parse_scenario_answer_not_bar:
  "parseQuestionsFromText (JStr scenario_text)
     \<noteq> [\<lparr>pq_question = ''What is X?'', pq_options = [''foo'', ''bar'', ''baz''],
          pq_answer = ''bar''\<rparr>]"
  by (simp add: parse_scenario_text)

text \<open>
  Claim C5, amended.  That text parses to exactly one question with the options
  \<open>["foo", "bar", "baz"]\<close> and the answer \<open>"foo"\<close>, the default; with the marker at the end
  of the last option line, \<open>C) baz *Correct Answer:* B\<close>, the recorded letter B is mapped
  to the second option and the answer is \<open>"bar"\<close>.
\<close>

theorem parse_scenario_marker_lines:
  "parseQuestionsFromText (JStr scenario_text)
     = [\<lparr>pq_question = ''What is X?'', pq_options = [''foo'', ''bar'', ''baz''],
          pq_answer = ''foo''\<rparr>]
   \<and> parseQuestionsFromText (JStr inline_marker_text)
     = [\<lparr>pq_question = ''What is X?'', pq_options = [''foo'', ''bar'', ''baz''],
          pq_answer = ''bar''\<rparr>]"
  by (simp add: parse_scenario_text parse_inline_marker_text)

section \<open>Properties of level test generation\<close>

text \<open>
  Claim C6 (an unreachable provider or an unusable response falls back to the five mock
  questions).  For the topic \<open>"React"\<close>, a provider call that throws, a response without
  text or with empty text, and a failing import all end in the 500 answer; the mock
  questions are returned only when the imported module lacks the class.
\<close>

theorem generate_level_test_no_fallback:
  "generate_level_test json_parse ClassPresent CallThrows (JStr ''React'')
     = Inl level_test_failed
   \<and> generate_level_test json_parse ClassPresent (CallReturns None) (JStr ''React'')
     = Inl level_test_failed
   \<and> generate_level_test json_parse ClassPresent (CallReturns (Some [])) (JStr ''React'')
     = Inl level_test_failed
   \<and> generate_level_test json_parse ImportThrows provider (JStr ''React'')
     = Inl level_test_failed
   \<and> generate_level_test json_parse ClassMissing provider (JStr ''React'')
     = Inr (mockQuestions ''React'')"
  by (simp add: generate_level_test_def trim_def is_space_def)

lemma generate_level_test_success:
  "generate_level_test json_parse sdk provider topic = Inr qs \<Longrightarrow> sdk \<noteq> ClassMissing \<Longrightarrow>
   \<exists>rawText. provider = CallReturns (Some rawText) \<and> json_parse rawText = Some qs"
  by (auto simp: generate_level_test_def
      split: if_splits jsval.splits sdk_import.splits provider_outcome.splits option.splits)

lemma mockQuestions_five: "\<exists>qs. mockQuestions t = JArr qs \<and> length qs = 5"
  by (simp add: mockQuestions_def)

section \<open>Properties of the level evaluator\<close>

text \<open>
  Claim C8.  When the submitted answers or the correct answers are not an array, or both
  are arrays of different lengths, \<open>/evaluate-level\<close> answers 400 and gives no result.
\<close>

theorem evaluate_level_invalid_input:
  assumes "\<not> isArray submitted \<or> \<not> isArray correctAnswers
           \<or> (\<exists>as cs. submitted = JArr as \<and> correctAnswers = JArr cs
                 \<and> length as \<noteq> length cs)"
  shows "\<exists>msg. evaluate_level round_pct submitted correctAnswers = Inl (Status 400 msg)"
proof (cases submitted)
  case (JArr as)
  show ?thesis
  proof (cases correctAnswers)
    case (JArr cs)
    with \<open>submitted = JArr as\<close> assms have "length as \<noteq> length cs" by simp
    with JArr \<open>submitted = JArr as\<close> show ?thesis by (simp add: evaluate_level_def)
  qed (simp_all add: evaluate_level_def \<open>submitted = JArr as\<close>)
qed (simp_all add: evaluate_level_def)

theorem evaluate_level_invalid_input_witness:
  "(\<exists>msg. evaluate_level exact_percent (JArr [JStr ''a'']) JUndefined
             = Inl (Status 400 msg))
   \<and> (\<exists>msg. evaluate_level exact_percent (JArr [JStr ''a'']) (JArr [])
             = Inl (Status 400 msg))"
proof -
  have h1: "\<not> isArray (JArr [JStr ''a'']) \<or> \<not> isArray JUndefined
      \<or> (\<exists>as cs. JArr [JStr ''a''] = JArr as \<and> JUndefined = JArr cs
            \<and> length as \<noteq> length cs)"
    by simp
  have h2: "\<not> isArray (JArr [JStr ''a'']) \<or> \<not> isArray (JArr [])
      \<or> (\<exists>as cs. JArr [JStr ''a''] = JArr as \<and> JArr [] = JArr cs
            \<and> length as \<noteq> length cs)"
    by simp
  from evaluate_level_invalid_input [OF h1, of exact_percent]
       evaluate_level_invalid_input [OF h2, of exact_percent]
  show ?thesis by blast
qed

lemma count_level_strings:
  "i + length xs \<le> length cs \<Longrightarrow>
   count_level (map JStr xs) (map JStr cs) i n
     = Some (n + length (filter (\<lambda>(x, y). same_text x y) (zip xs (drop i cs))))"
proof (induction xs arbitrary: i n)
  case Nil
  then show ?case by simp
next
  case (Cons x xs)
  then have i: "i < length cs" and rest: "Suc i + length xs \<le> length cs" by simp_all
  from i have d: "drop i cs = cs ! i # drop (Suc i) cs"
    by (simp add: Cons_nth_drop_Suc)
  from i have g: "arr_get (map JStr cs) (int i) = JStr (cs ! i)"
    by (simp add: arr_get_def)
  show ?case
    using Cons.IH [OF rest] by (simp add: lowered_JStr g d same_text_def)
qed

lemma level_of_cases:
  "(p \<ge> 80 \<longrightarrow> level_of p = Advanced)
   \<and> (60 \<le> p \<and> p < 80 \<longrightarrow> level_of p = Intermediate)
   \<and> (p < 60 \<longrightarrow> level_of p = Beginner)"
  by (simp add: level_of_def)

text \<open>
  Claim C9.  For two string sequences of equal length the level evaluator returns a
  result: the total is the length, the count is the number of positions that agree up to
  case and surrounding white space, the percentage is 0 for the total 0 and the rounded
  quotient otherwise, and the level follows the percentage with inclusive lower bounds:
  Advanced from 80, Intermediate from 60 up to 79, Beginner below 60 (so 80, 60 and 59
  give Advanced, Intermediate and Beginner).  With the total 0 the level is Beginner.
\<close>

theorem evaluate_level_buckets:
  assumes "length xs = length ys"
  shows "\<exists>r. evaluate_level round_pct (JArr (map JStr xs)) (JArr (map JStr ys)) = Inr r
     \<and> lr_total r = length xs
     \<and> lr_correct r = length (filter (\<lambda>(x, y). same_text x y) (zip xs ys))
     \<and> percentage r = (if length xs = 0 then 0 else round_pct (lr_correct r) (length xs))
     \<and> (percentage r \<ge> 80 \<longrightarrow> level r = Advanced)
     \<and> (60 \<le> percentage r \<and> percentage r < 80 \<longrightarrow> level r = Intermediate)
     \<and> (percentage r < 60 \<longrightarrow> level r = Beginner)
     \<and> (length xs = 0 \<longrightarrow> percentage r = 0 \<and> level r = Beginner)
     \<and> level_of 80 = Advanced \<and> level_of 60 = Intermediate \<and> level_of 59 = Beginner"
proof -
  let ?c = "length (filter (\<lambda>(x, y). same_text x y) (zip xs ys))"
  let ?p = "if length xs > 0 then round_pct ?c (length xs) else 0"
  have c: "count_level (map JStr xs) (map JStr ys) 0 0 = Some ?c"
    using count_level_strings [of 0 xs ys 0] assms by simp
  have r: "evaluate_level round_pct (JArr (map JStr xs)) (JArr (map JStr ys))
     = Inr \<lparr>lr_success = True, lr_correct = ?c, lr_total = length xs,
             percentage = ?p, level = level_of ?p\<rparr>"
    using assms c by (simp add: evaluate_level_def Let_def)
  show ?thesis
    unfolding r using level_of_cases [of ?p] by (auto simp: level_of_def)
qed

theorem evaluate_level_buckets_witness:
  "length [''a'', ''b'', ''c'', ''d'', ''e''] = length [''a'', ''b'', ''c'', ''d'', ''f'']
   \<and> evaluate_level exact_percent (JArr (map JStr [''a'', ''b'', ''c'', ''d'', ''e'']))
        (JArr (map JStr [''a'', ''b'', ''c'', ''d'', ''f'']))
     = Inr \<lparr>lr_success = True, lr_correct = 4, lr_total = 5, percentage = 80,
             level = Advanced\<rparr>"
proof -
  have h: "length [''a'', ''b'', ''c'', ''d'', ''e'']
         = length [''a'', ''b'', ''c'', ''d'', ''f'']"
    by simp
  have e: "evaluate_level exact_percent (JArr (map JStr [''a'', ''b'', ''c'', ''d'', ''e'']))
        (JArr (map JStr [''a'', ''b'', ''c'', ''d'', ''f'']))
     = Inr \<lparr>lr_success = True, lr_correct = 4, lr_total = 5, percentage = 80,
             level = Advanced\<rparr>"
    by (simp add: evaluate_level_def lowered_def toLowerCase_def lower_char_def trim_def
        is_space_def arr_get_def exact_percent_def level_of_def Let_def)
  from evaluate_level_buckets [OF h, of exact_percent] h e show ?thesis by simp
qed

end
